theory Spec2Isabelle
  imports Complex_Main
begin

section \<open>The gravitational wave animation: numeric model\<close>

text \<open>
  A shallow embedding of \<^verbatim>\<open>src/gravitational_wave_animation.py\<close>.

  Python floats and the entries of numpy arrays are modelled by the real numbers:
  the arithmetic, \<open>sqrt\<close>, \<open>sin\<close>, \<open>cos\<close> and \<open>exp\<close> below are the exact ones.
  Rounding, overflow to infinity and NaN are outside this model, so every theorem
  below is a statement about the formulas the code evaluates, not about the last bits
  of an IEEE double.
\<close>

subsection \<open>Simulation constants\<close>

definition FPS :: nat where
  "FPS = 30"

definition DURATION :: nat where
  "DURATION = 12"

definition TOTAL_FRAMES :: nat where
  "TOTAL_FRAMES = FPS * DURATION"

definition SPACE_EXTENT :: real where
  "SPACE_EXTENT = 6"

definition GRID_POINTS :: nat where
  "GRID_POINTS = 60"

definition WAVE_SPEED :: real where
  "WAVE_SPEED = 1"

definition WAVE_AMPLITUDE :: real where
  "WAVE_AMPLITUDE = 6 / 10"

definition WAVE_NUMBER :: real where
  "WAVE_NUMBER = 2"

definition GAUSSIAN_FALLOFF :: real where
  "GAUSSIAN_FALLOFF = 18"

definition ORBITAL_RADIUS :: real where
  "ORBITAL_RADIUS = 14 / 10"

definition ORBITAL_PERIOD :: real where
  "ORBITAL_PERIOD = 4"

definition MASS_HEIGHT_OFFSET :: real where
  "MASS_HEIGHT_OFFSET = 9 / 10"

subsection \<open>Arrays\<close>

text \<open>
  A two-dimensional numpy array is a list of rows. The elementwise operations of numpy
  are \<open>arr_map\<close> (an array with a scalar, or a function applied to an array) and
  \<open>arr_map2\<close> (two arrays). The program only ever combines the two arrays that
  \<^verbatim>\<open>np.meshgrid\<close> returns, which have the same shape; broadcasting of arrays of
  different shapes is not modelled, and the theorems about arrays assume \<open>same_shape\<close>.
\<close>

type_synonym ndarray = "real list list"

definition arr_map :: "(real \<Rightarrow> real) \<Rightarrow> ndarray \<Rightarrow> ndarray" where
  "arr_map f a = map (map f) a"

definition arr_map2 :: "(real \<Rightarrow> real \<Rightarrow> real) \<Rightarrow> ndarray \<Rightarrow> ndarray \<Rightarrow> ndarray" where
  "arr_map2 f a b = map2 (map2 f) a b"

definition same_shape :: "ndarray \<Rightarrow> ndarray \<Rightarrow> bool" where
  "same_shape a b \<longleftrightarrow> map length a = map length b"

text \<open>
  \<^verbatim>\<open>np.linspace(start, stop, num)\<close>: \<open>num\<close> evenly spaced samples, both ends
  included: sample \<open>i\<close> is \<open>start + i * step\<close> with \<open>step = (stop - start) / (num - 1)\<close>.
\<close>

definition linspace :: "real \<Rightarrow> real \<Rightarrow> nat \<Rightarrow> real list" where
  "linspace start stop num =
     map (\<lambda>i. start + real i * ((stop - start) / real (num - 1))) [0..<num]"

text \<open>
  \<^verbatim>\<open>np.meshgrid(xs, ys)\<close> with the default \<^verbatim>\<open>indexing='xy'\<close>: two arrays of
  \<open>length ys\<close> rows and \<open>length xs\<close> columns; in the first, row \<open>i\<close> is \<open>xs\<close>; in the
  second, row \<open>i\<close> is constantly \<open>ys ! i\<close>.
\<close>

definition meshgrid :: "real list \<Rightarrow> real list \<Rightarrow> ndarray \<times> ndarray" where
  "meshgrid xs ys =
     (replicate (length ys) xs, map (\<lambda>y. replicate (length xs) y) ys)"

subsection \<open>Grid builder\<close>

definition build_grid :: "ndarray \<times> ndarray" where
  "build_grid =
     (let axis = linspace (- SPACE_EXTENT) SPACE_EXTENT GRID_POINTS
      in meshgrid axis axis)"

subsection \<open>Mass trajectory model\<close>

definition mass_positions :: "real \<Rightarrow> (real \<times> real) \<times> (real \<times> real)" where
  "mass_positions time_seconds =
     (let angular_velocity = 2 * pi / ORBITAL_PERIOD;
          angle = angular_velocity * time_seconds;
          offset = ORBITAL_RADIUS;
          first = (offset * cos angle, offset * sin angle);
          second = (- offset * cos angle, - offset * sin angle)
      in (first, second))"

subsection \<open>Wave field model\<close>

definition wave_displacement_at :: "real \<Rightarrow> real \<Rightarrow> real \<Rightarrow> real" where
  "wave_displacement_at x_coord y_coord time_seconds =
     (let radius = sqrt (x_coord\<^sup>2 + y_coord\<^sup>2) + 1 / 10 ^ 6;
          phase = WAVE_NUMBER * radius - (2 * pi / ORBITAL_PERIOD) * time_seconds * WAVE_SPEED;
          polarization = (x_coord\<^sup>2 - y_coord\<^sup>2) / (SPACE_EXTENT\<^sup>2);
          envelope = exp (- (radius\<^sup>2) / GAUSSIAN_FALLOFF)
      in WAVE_AMPLITUDE * sin phase * polarization * envelope)"

definition wave_deformation :: "ndarray \<Rightarrow> ndarray \<Rightarrow> real \<Rightarrow> ndarray" where
  "wave_deformation x_grid y_grid time_seconds =
     (let r = arr_map (\<lambda>v. v + 1 / 10 ^ 6)
                (arr_map sqrt
                  (arr_map2 (+) (arr_map (\<lambda>v. v\<^sup>2) x_grid) (arr_map (\<lambda>v. v\<^sup>2) y_grid)));
          phase = arr_map (\<lambda>v. v - (2 * pi / ORBITAL_PERIOD) * time_seconds * WAVE_SPEED)
                    (arr_map (\<lambda>v. WAVE_NUMBER * v) r);
          polarization = arr_map (\<lambda>v. v / (SPACE_EXTENT\<^sup>2))
                    (arr_map2 (-) (arr_map (\<lambda>v. v\<^sup>2) x_grid) (arr_map (\<lambda>v. v\<^sup>2) y_grid));
          envelope = arr_map exp
                    (arr_map (\<lambda>v. v / GAUSSIAN_FALLOFF) (arr_map uminus (arr_map (\<lambda>v. v\<^sup>2) r)))
      in arr_map2 (*)
           (arr_map2 (*) (arr_map (\<lambda>v. WAVE_AMPLITUDE * v) (arr_map sin phase)) polarization)
           envelope)"

subsection \<open>Animation driver\<close>

text \<open>
  What \<^verbatim>\<open>update\<close> hands to the drawing library for one frame: the time sample, the
  surface heights, and the two markers (x, y, z).
\<close>

record frame =
  time_sample :: real
  z_grid :: ndarray
  markers :: "(real \<times> real \<times> real) list"

definition update :: "ndarray \<times> ndarray \<Rightarrow> nat \<Rightarrow> frame" where
  "update grid frame_index =
     (let time_seconds = real frame_index / real FPS;
          z = wave_deformation (fst grid) (snd grid) time_seconds;
          (first, second) = mass_positions time_seconds;
          first_z = wave_displacement_at (fst first) (snd first) time_seconds + MASS_HEIGHT_OFFSET;
          second_z = wave_displacement_at (fst second) (snd second) time_seconds + MASS_HEIGHT_OFFSET
      in \<lparr> time_sample = time_seconds, z_grid = z,
           markers = [(fst first, snd first, first_z), (fst second, snd second, second_z)] \<rparr>)"

text \<open>
  \<^verbatim>\<open>FuncAnimation(fig, update, frames=TOTAL_FRAMES, ...)\<close> followed by
  \<^verbatim>\<open>anim.save\<close>: the library calls \<^verbatim>\<open>update\<close> on each element of
  \<^verbatim>\<open>range(TOTAL_FRAMES)\<close> in turn and writes the frame drawn; the list below is the
  sequence of these calls, in the order they are made.
\<close>

definition rendered_frames :: "frame list" where
  "rendered_frames = map (update build_grid) [0..<TOTAL_FRAMES]"

subsection \<open>Nearest grid point\<close>

text \<open>
  The end-to-end scenario of the specification reads the field at the grid point nearest
  to a target. Along one axis this is \<^verbatim>\<open>np.argmin(np.abs(axis - v))\<close>: the first index
  at which the distance to \<open>v\<close> is least. On the mesh of \<open>build_grid\<close> the cell nearest to
  \<open>(x, y)\<close> has the row nearest to \<open>y\<close> and the column nearest to \<open>x\<close>.
\<close>

fun nearest_from :: "real \<Rightarrow> real list \<Rightarrow> nat \<Rightarrow> nat \<Rightarrow> real \<Rightarrow> nat" where
  "nearest_from v [] k best d = best"
| "nearest_from v (a # as) k best d =
     (if \<bar>a - v\<bar> < d then nearest_from v as (Suc k) k \<bar>a - v\<bar>
      else nearest_from v as (Suc k) best d)"

definition nearest_index :: "real list \<Rightarrow> real \<Rightarrow> nat" where
  "nearest_index axis v =
     (case axis of [] \<Rightarrow> 0 | a # as \<Rightarrow> nearest_from v as 1 0 \<bar>a - v\<bar>)"

section \<open>Arrays: shapes and cells\<close>

lemma same_shape_lengths:
  assumes "same_shape a b"
  shows "length a = length b"
  using assms unfolding same_shape_def by (rule map_eq_imp_length_eq)

lemma same_shape_rows:
  assumes "same_shape a b" and "i < length a"
  shows "length (a ! i) = length (b ! i)"
proof -
  have "map length a ! i = map length b ! i"
    using assms(1) by (simp add: same_shape_def)
  then show ?thesis
    using assms same_shape_lengths [OF assms(1)] by simp
qed

lemma arr_map_cell:
  assumes "i < length a" and "j < length (a ! i)"
  shows "arr_map f a ! i ! j = f (a ! i ! j)"
  using assms by (simp add: arr_map_def)

lemma arr_map_shape: "same_shape (arr_map f a) a"
  by (simp add: same_shape_def arr_map_def comp_def)

lemma arr_map2_cell:
  assumes "same_shape a b" and "i < length a" and "j < length (a ! i)"
  shows "arr_map2 f a b ! i ! j = f (a ! i ! j) (b ! i ! j)"
  using assms same_shape_lengths [OF assms(1)] same_shape_rows [OF assms(1,2)]
  by (simp add: arr_map2_def)

lemma arr_map2_shape:
  assumes "same_shape a b"
  shows "same_shape (arr_map2 f a b) a"
proof -
  have len: "length a = length b" by (rule same_shape_lengths [OF assms])
  have "map length (arr_map2 f a b) = map length a"
  proof (rule nth_equalityI)
    show "length (map length (arr_map2 f a b)) = length (map length a)"
      using len by (simp add: arr_map2_def)
  next
    fix i assume "i < length (map length (arr_map2 f a b))"
    then have i: "i < length a" using len by (simp add: arr_map2_def)
    then show "map length (arr_map2 f a b) ! i = map length a ! i"
      using len same_shape_rows [OF assms i] by (simp add: arr_map2_def)
  qed
  then show ?thesis by (simp add: same_shape_def)
qed

lemma same_shape_sym: "same_shape a b \<Longrightarrow> same_shape b a"
  by (simp add: same_shape_def)

lemma same_shape_trans: "same_shape a b \<Longrightarrow> same_shape b c \<Longrightarrow> same_shape a c"
  by (simp add: same_shape_def)


lemma same_shape_refl: "same_shape a a"
  by (simp add: same_shape_def)

lemma cell_in_shape:
  assumes "same_shape a g" and "i < length g" and "j < length (g ! i)"
  shows "i < length a" and "j < length (a ! i)"
  using assms same_shape_lengths [OF assms(1)] same_shape_rows [OF assms(1)] by simp_all

lemma arr_map_shape_rel:
  assumes "same_shape a g"
  shows "same_shape (arr_map f a) g"
  using same_shape_trans [OF arr_map_shape assms] .

lemma arr_map2_shape_rel:
  assumes "same_shape a g" and "same_shape b g"
  shows "same_shape (arr_map2 f a b) g"
proof -
  have "same_shape a b"
    using assms same_shape_sym same_shape_trans by blast
  from arr_map2_shape [OF this] assms(1) show ?thesis
    by (rule same_shape_trans)
qed

lemma arr_map_cell_rel:
  assumes "same_shape a g" and "i < length g" and "j < length (g ! i)"
  shows "arr_map f a ! i ! j = f (a ! i ! j)"
  using cell_in_shape [OF assms] by (rule arr_map_cell)

lemma arr_map2_cell_rel:
  assumes "same_shape a g" and "same_shape b g" and "i < length g" and "j < length (g ! i)"
  shows "arr_map2 f a b ! i ! j = f (a ! i ! j) (b ! i ! j)"
proof -
  have "same_shape a b"
    using assms(1,2) same_shape_sym same_shape_trans by blast
  then show ?thesis
    using cell_in_shape [OF assms(1,3,4)] by (rule arr_map2_cell)
qed

lemmas arr_shape = same_shape_refl arr_map_shape_rel arr_map2_shape_rel

lemmas arr_cell = arr_map_cell_rel arr_map2_cell_rel

lemma wave_deformation_shape:
  assumes "same_shape xg yg"
  shows "same_shape (wave_deformation xg yg t) xg"
  using same_shape_sym [OF assms] by (simp add: wave_deformation_def Let_def arr_shape)

lemma wave_deformation_cell:
  assumes sh: "same_shape xg yg" and i: "i < length xg" and j: "j < length (xg ! i)"
  shows "wave_deformation xg yg t ! i ! j = wave_displacement_at (xg ! i ! j) (yg ! i ! j) t"
proof -
  have ys: "same_shape yg xg" by (rule same_shape_sym [OF sh])
  show ?thesis
    unfolding wave_deformation_def wave_displacement_at_def Let_def
    using ys i j by (simp add: arr_shape arr_cell [where g = xg])
qed

lemma wave_deformation_as_map:
  assumes sh: "same_shape xg yg"
  shows "wave_deformation xg yg t = arr_map2 (\<lambda>x y. wave_displacement_at x y t) xg yg"
proof (rule nth_equalityI)
  let ?w = "wave_deformation xg yg t"
  let ?m = "arr_map2 (\<lambda>x y. wave_displacement_at x y t) xg yg"
  have wsh: "same_shape ?w xg" by (rule wave_deformation_shape [OF sh])
  have msh: "same_shape ?m xg" by (rule arr_map2_shape [OF sh])
  show len: "length ?w = length ?m"
    using same_shape_lengths [OF wsh] same_shape_lengths [OF msh] by simp
  fix i assume "i < length ?w"
  then have i: "i < length xg" using same_shape_lengths [OF wsh] by simp
  show "?w ! i = ?m ! i"
  proof (rule nth_equalityI)
    have wi: "i < length ?w" and mi: "i < length ?m"
      using i same_shape_lengths [OF wsh] same_shape_lengths [OF msh] by simp_all
    show "length (?w ! i) = length (?m ! i)"
      using same_shape_rows [OF wsh wi] same_shape_rows [OF msh mi] by simp
    fix j assume "j < length (?w ! i)"
    then have j: "j < length (xg ! i)"
      using same_shape_rows [OF wsh wi] by simp
    show "?w ! i ! j = ?m ! i ! j"
      using wave_deformation_cell [OF sh i j] arr_map2_cell [OF sh i j] by simp
  qed
qed

section \<open>Wave field\<close>

lemma displacement_closed_form:
  "wave_displacement_at x y t =
     6 / 10 * sin (2 * (sqrt (x\<^sup>2 + y\<^sup>2) + 1 / 10 ^ 6) - 2 * pi / 4 * t)
       * ((x\<^sup>2 - y\<^sup>2) / 6\<^sup>2)
       * exp (- ((sqrt (x\<^sup>2 + y\<^sup>2) + 1 / 10 ^ 6)\<^sup>2) / 18)"
  by (simp add: wave_displacement_at_def Let_def WAVE_NUMBER_def ORBITAL_PERIOD_def
      WAVE_SPEED_def SPACE_EXTENT_def GAUSSIAN_FALLOFF_def WAVE_AMPLITUDE_def)

lemma polarization_bound:
  fixes x y e :: real
  assumes "\<bar>x\<bar> \<le> e" and "\<bar>y\<bar> \<le> e" and "0 < e"
  shows "\<bar>(x\<^sup>2 - y\<^sup>2) / e\<^sup>2\<bar> \<le> 1"
proof -
  have x2: "x\<^sup>2 \<le> e\<^sup>2" using assms(1) by (simp add: abs_le_square_iff [symmetric])
  have y2: "y\<^sup>2 \<le> e\<^sup>2" using assms(2) by (simp add: abs_le_square_iff [symmetric])
  have "0 \<le> x\<^sup>2" and "0 \<le> y\<^sup>2" by simp_all
  with x2 y2 have "\<bar>x\<^sup>2 - y\<^sup>2\<bar> \<le> e\<^sup>2" by linarith
  moreover have "0 < e\<^sup>2" using assms(3) by simp
  ultimately show ?thesis by simp
qed

lemma envelope_bound:
  fixes r f :: real
  assumes "0 < f"
  shows "0 < exp (- (r\<^sup>2) / f)" and  "exp (- (r\<^sup>2) / f) \<le> 1"
  using assms by (simp_all add: divide_nonpos_pos)

lemma product_bound:
  fixes a s p e :: real
  assumes "0 \<le> a" and "\<bar>s\<bar> \<le> 1" and "\<bar>p\<bar> \<le> 1" and "0 \<le> e" and "e \<le> 1"
  shows "\<bar>a * s * p * e\<bar> \<le> a"
proof -
  have sp: "\<bar>s\<bar> * \<bar>p\<bar> \<le> 1"
    using assms(2,3) by (simp add: mult_le_one)
  have "\<bar>s\<bar> * \<bar>p\<bar> * e \<le> 1"
    using sp assms(4,5) by (simp add: mult_le_one)
  then have "a * (\<bar>s\<bar> * \<bar>p\<bar> * e) \<le> a * 1"
    using assms(1) by (rule mult_left_mono)
  moreover have "\<bar>a * s * p * e\<bar> = a * (\<bar>s\<bar> * \<bar>p\<bar> * e)"
    using assms(1,4) by (simp add: abs_mult)
  ultimately show ?thesis by simp
qed

lemma displacement_bound:
  assumes "\<bar>x\<bar> \<le> SPACE_EXTENT" and "\<bar>y\<bar> \<le> SPACE_EXTENT"
  shows "\<bar>wave_displacement_at x y t\<bar> \<le> WAVE_AMPLITUDE"
proof -
  have e: "(0::real) < SPACE_EXTENT" by (simp add: SPACE_EXTENT_def)
  have f: "(0::real) < GAUSSIAN_FALLOFF" by (simp add: GAUSSIAN_FALLOFF_def)
  have a: "0 \<le> WAVE_AMPLITUDE" by (simp add: WAVE_AMPLITUDE_def)
  show ?thesis
    unfolding wave_displacement_at_def Let_def
    by (rule product_bound [OF a _ polarization_bound [OF assms e] _ envelope_bound(2) [OF f]])
      (simp_all add: abs_sin_le_one)
qed

lemma displacement_diagonal:
  fixes x y :: real
  assumes "\<bar>x\<bar> = \<bar>y\<bar>"
  shows "x\<^sup>2 - y\<^sup>2 = 0"
proof -
  have "\<bar>x\<bar>\<^sup>2 = \<bar>y\<bar>\<^sup>2" using assms by (rule arg_cong)
  then have "x\<^sup>2 = y\<^sup>2" by (simp only: power2_abs)
  then show ?thesis by (simp only: diff_self)
qed

text \<open>
  C1. At every coordinate \<open>(x, y)\<close> and time \<open>t\<close> the single-point function returns
  \<open>0.6 * sin (2 * r - (2 * pi / 4) * t) * ((x\<^sup>2 - y\<^sup>2) / 6\<^sup>2) * exp (- r\<^sup>2 / 18)\<close> with
  \<open>r = sqrt (x\<^sup>2 + y\<^sup>2) + 10\<^sup>-\<^sup>6\<close>, and so does the grid function in every cell of two
  coordinate arrays of the same shape.
\<close>

theorem wave_field_closed_form:
  "wave_displacement_at x y t =
     (let r = sqrt (x\<^sup>2 + y\<^sup>2) + 1 / 10 ^ 6
      in 6 / 10 * sin (2 * r - 2 * pi / 4 * t) * ((x\<^sup>2 - y\<^sup>2) / 6\<^sup>2) * exp (- (r\<^sup>2) / 18))
   \<and> (same_shape xg yg \<and> i < length xg \<and> j < length (xg ! i) \<longrightarrow>
        wave_deformation xg yg t ! i ! j =
          (let r = sqrt ((xg ! i ! j)\<^sup>2 + (yg ! i ! j)\<^sup>2) + 1 / 10 ^ 6
           in 6 / 10 * sin (2 * r - 2 * pi / 4 * t)
                * (((xg ! i ! j)\<^sup>2 - (yg ! i ! j)\<^sup>2) / 6\<^sup>2) * exp (- (r\<^sup>2) / 18)))"
proof (intro conjI impI)
  show "wave_displacement_at x y t =
     (let r = sqrt (x\<^sup>2 + y\<^sup>2) + 1 / 10 ^ 6
      in 6 / 10 * sin (2 * r - 2 * pi / 4 * t) * ((x\<^sup>2 - y\<^sup>2) / 6\<^sup>2) * exp (- (r\<^sup>2) / 18))"
    unfolding Let_def by (rule displacement_closed_form)
next
  assume h: "same_shape xg yg \<and> i < length xg \<and> j < length (xg ! i)"
  then have "wave_deformation xg yg t ! i ! j = wave_displacement_at (xg ! i ! j) (yg ! i ! j) t"
    by (simp add: wave_deformation_cell)
  then show "wave_deformation xg yg t ! i ! j =
          (let r = sqrt ((xg ! i ! j)\<^sup>2 + (yg ! i ! j)\<^sup>2) + 1 / 10 ^ 6
           in 6 / 10 * sin (2 * r - 2 * pi / 4 * t)
                * (((xg ! i ! j)\<^sup>2 - (yg ! i ! j)\<^sup>2) / 6\<^sup>2) * exp (- (r\<^sup>2) / 18))"
    unfolding Let_def by (simp only: displacement_closed_form)
qed

theorem wave_field_closed_form_witness:
  "same_shape [[1, 2], [1, 2]] [[0, 0], [3, 3]] \<and> (1::nat) < length [[1, 2], [1, 2 :: real]]
   \<and> (0::nat) < length ([[1, 2], [1, 2 :: real]] ! 1)
   \<and> wave_deformation [[1, 2], [1, 2]] [[0, 0], [3, 3]] 5 ! 1 ! 0 =
        6 / 10 * sin (2 * (sqrt (1\<^sup>2 + 3\<^sup>2) + 1 / 10 ^ 6) - 2 * pi / 4 * 5)
          * ((1\<^sup>2 - 3\<^sup>2) / 6\<^sup>2) * exp (- ((sqrt (1\<^sup>2 + 3\<^sup>2) + 1 / 10 ^ 6)\<^sup>2) / 18)"
  using wave_field_closed_form [of 1 3 5 "[[1, 2], [1, 2]]" "[[0, 0], [3, 3]]" 1 0]
  by (simp add: same_shape_def Let_def)

text \<open>
  C9. The grid function and the single-point function agree: on two coordinate arrays of
  the same shape, the array \<open>wave_deformation\<close> returns has that shape and holds in each
  cell the value of \<open>wave_displacement_at\<close> at the cell's coordinates.
\<close>

theorem grid_agrees_with_scalar:
  assumes "same_shape xg yg"
  shows "wave_deformation xg yg t = arr_map2 (\<lambda>x y. wave_displacement_at x y t) xg yg
         \<and> same_shape (wave_deformation xg yg t) xg
         \<and> (i < length xg \<and> j < length (xg ! i) \<longrightarrow>
              wave_deformation xg yg t ! i ! j
                = wave_displacement_at (xg ! i ! j) (yg ! i ! j) t)"
  using assms
  by (simp add: wave_deformation_as_map [symmetric] wave_deformation_shape wave_deformation_cell)

theorem grid_agrees_with_scalar_witness:
  "same_shape [[1, 2], [1, 2]] [[0, 0], [3, 3]]
   \<and> wave_deformation [[1, 2], [1, 2]] [[0, 0], [3, 3]] 5
       = [[wave_displacement_at 1 0 5, wave_displacement_at 2 0 5],
          [wave_displacement_at 1 3 5, wave_displacement_at 2 3 5]]
   \<and> wave_deformation [[1, 2], [1, 2]] [[0, 0], [3, 3]] 5 ! 1 ! 0 = wave_displacement_at 1 3 5"
proof -
  have sh: "same_shape [[1, 2], [1, 2]] [[0, 0], [3, 3]]"
    by (simp add: same_shape_def)
  show ?thesis
    using sh grid_agrees_with_scalar [OF sh, of 5 1 0]
    by (simp add: arr_map2_def)
qed

text \<open>
  C6. On the lines \<open>\<bar>x\<bar> = \<bar>y\<bar>\<close> the polarization term \<open>(x\<^sup>2 - y\<^sup>2) / extent\<^sup>2\<close> is zero,
  and with it the displacement, at every time.
\<close>

theorem polarization_zero_on_diagonals:
  assumes "\<bar>x\<bar> = \<bar>y\<bar>"
  shows "(x\<^sup>2 - y\<^sup>2) / (SPACE_EXTENT\<^sup>2) = 0 \<and> wave_displacement_at x y t = 0"
  using displacement_diagonal [OF assms]
  by (simp add: wave_displacement_at_def Let_def)

theorem polarization_zero_on_diagonals_witness:
  "\<bar>3 :: real\<bar> = \<bar>- 3\<bar> \<and> (3\<^sup>2 - (- 3)\<^sup>2) / (SPACE_EXTENT\<^sup>2) = 0
   \<and> wave_displacement_at 3 (- 3) 1 = 0"
  using polarization_zero_on_diagonals [of 3 "- 3" 1] by simp

text \<open>
  C10. On the spatial domain \<open>\<bar>x\<bar> \<le> extent\<close>, \<open>\<bar>y\<bar> \<le> extent\<close> the magnitude of the
  displacement is at most the amplitude \<open>0.6\<close>, for the single-point function and for
  every cell of the grid function whose coordinates lie in the domain; at the origin the
  displacement is exactly zero.
\<close>

theorem displacement_bounded_on_domain:
  "(\<bar>x\<bar> \<le> SPACE_EXTENT \<and> \<bar>y\<bar> \<le> SPACE_EXTENT \<longrightarrow>
       \<bar>wave_displacement_at x y t\<bar> \<le> WAVE_AMPLITUDE)
   \<and> (same_shape xg yg \<and> i < length xg \<and> j < length (xg ! i)
        \<and> \<bar>xg ! i ! j\<bar> \<le> SPACE_EXTENT \<and> \<bar>yg ! i ! j\<bar> \<le> SPACE_EXTENT \<longrightarrow>
       \<bar>wave_deformation xg yg t ! i ! j\<bar> \<le> WAVE_AMPLITUDE)
   \<and> wave_displacement_at 0 0 t = 0
   \<and> WAVE_AMPLITUDE = 6 / 10 \<and> SPACE_EXTENT = 6"
proof (intro conjI impI)
  assume "\<bar>x\<bar> \<le> SPACE_EXTENT \<and> \<bar>y\<bar> \<le> SPACE_EXTENT"
  then show "\<bar>wave_displacement_at x y t\<bar> \<le> WAVE_AMPLITUDE"
    by (simp add: displacement_bound)
next
  assume h: "same_shape xg yg \<and> i < length xg \<and> j < length (xg ! i)
        \<and> \<bar>xg ! i ! j\<bar> \<le> SPACE_EXTENT \<and> \<bar>yg ! i ! j\<bar> \<le> SPACE_EXTENT"
  then have "wave_deformation xg yg t ! i ! j = wave_displacement_at (xg ! i ! j) (yg ! i ! j) t"
    by (simp add: wave_deformation_cell)
  then show "\<bar>wave_deformation xg yg t ! i ! j\<bar> \<le> WAVE_AMPLITUDE"
    using h by (simp add: displacement_bound)
next
  show "wave_displacement_at 0 0 t = 0"
    by (simp add: wave_displacement_at_def Let_def)
next
  show "WAVE_AMPLITUDE = 6 / 10" by (simp add: WAVE_AMPLITUDE_def)
next
  show "SPACE_EXTENT = 6" by (simp add: SPACE_EXTENT_def)
qed

theorem displacement_bounded_on_domain_witness:
  "\<bar>6 :: real\<bar> \<le> SPACE_EXTENT \<and> \<bar>- 3 :: real\<bar> \<le> SPACE_EXTENT
   \<and> \<bar>wave_displacement_at 6 (- 3) 2\<bar> \<le> WAVE_AMPLITUDE
   \<and> same_shape [[6]] [[- 3]]
   \<and> \<bar>wave_deformation [[6]] [[- 3]] 2 ! 0 ! 0\<bar> \<le> WAVE_AMPLITUDE"
  using displacement_bounded_on_domain [of 6 "- 3" 2 "[[6]]" "[[- 3]]" 0 0]
  by (simp add: same_shape_def SPACE_EXTENT_def)

section \<open>End-to-end scenario: the field at the grid point nearest to (2, 0)\<close>

text \<open>
  The axis of the mesh has 60 samples from \<open>-6\<close> to \<open>6\<close>, so its step is \<open>12 / 59\<close> and
  sample \<open>i\<close> is \<open>-6 + 12 * i / 59\<close>: neither \<open>2\<close> nor \<open>0\<close> is a sample. The values of
  \<open>sin\<close> and \<open>exp\<close> that decide the scenario are bounded with Taylor polynomials.
\<close>

lemma length_linspace: "length (linspace a b n) = n"
  by (simp add: linspace_def)

lemma nth_linspace:
  assumes "i < n"
  shows "linspace a b n ! i = a + real i * ((b - a) / real (n - 1))"
  using assms by (simp add: linspace_def)

lemma axis_nth:
  assumes "i < 60"
  shows "linspace (- SPACE_EXTENT) SPACE_EXTENT GRID_POINTS ! i = - 6 + real i * (12 / 59)"
  using assms by (simp add: nth_linspace GRID_POINTS_def SPACE_EXTENT_def)

lemma upt_60: "[0..<60] = [0, 1, 2, 3, 4, 5, 6, 7, 8, 9, 10, 11, 12, 13, 14, 15, 16, 17, 18, 19,
    20, 21, 22, 23, 24, 25, 26, 27, 28, 29, 30, 31, 32, 33, 34, 35, 36, 37, 38, 39,
    40, 41, 42, 43, 44, 45, 46, 47, 48, 49, 50, 51, 52, 53, 54, 55, 56, 57, 58, 59 :: nat]"
  by code_simp

lemma nearest_x: "nearest_index (linspace (- SPACE_EXTENT) SPACE_EXTENT GRID_POINTS) 2 = 39"
  by (simp add: nearest_index_def linspace_def GRID_POINTS_def SPACE_EXTENT_def upt_60)

lemma nearest_y: "nearest_index (linspace (- SPACE_EXTENT) SPACE_EXTENT GRID_POINTS) 0 = 29"
  by (simp add: nearest_index_def linspace_def GRID_POINTS_def SPACE_EXTENT_def upt_60)

lemma sin_lipschitz:
  fixes a b :: real
  shows "\<bar>sin a - sin b\<bar> \<le> \<bar>a - b\<bar>"
proof -
  have "\<bar>sin a - sin b\<bar> = 2 * \<bar>sin ((a - b) / 2)\<bar> * \<bar>cos ((a + b) / 2)\<bar>"
    by (simp add: sin_diff_sin abs_mult)
  also have "\<dots> \<le> 2 * \<bar>(a - b) / 2\<bar> * 1"
    by (intro mult_mono abs_sin_x_le_abs_x) simp_all
  also have "\<dots> = \<bar>a - b\<bar>" by simp
  finally show ?thesis .
qed

lemma sin_poly16:
  fixes x :: real
  shows "(\<Sum>m<16. sin_coeff m * x ^ m) =
     x - x^3 / 6 + x^5 / 120 - x^7 / 5040 + x^9 / 362880 - x^11 / 39916800
       + x^13 / 6227020800 - x^15 / 1307674368000"
  by (simp add: lessThan_nat_numeral lessThan_Suc sin_coeff_def fact_numeral)

lemma sin_4_upper: "sin (4::real) \<le> - 756 / 1000"
proof -
  have "\<bar>sin (4::real) - (\<Sum>m<16. sin_coeff m * 4 ^ m)\<bar> \<le> inverse (fact 16) * \<bar>4\<bar> ^ 16"
    by (rule Maclaurin_sin_bound)
  then have "\<bar>sin (4::real) + 43932508 / 58046625\<bar> \<le> 131072 / 638512875"
    unfolding sin_poly16 by (simp add: fact_numeral)
  then show ?thesis by linarith
qed

lemma sin_387_lower: "- 67 / 100 \<le> sin (387 / 100 :: real)"
proof -
  have "\<bar>sin (387 / 100 :: real) - (\<Sum>m<16. sin_coeff m * (387 / 100) ^ m)\<bar>
          \<le> inverse (fact 16) * \<bar>387 / 100\<bar> ^ 16"
    by (rule Maclaurin_sin_bound)
  moreover have "inverse (fact 16) * \<bar>387 / 100 :: real\<bar> ^ 16 \<le> 1 / 1000"
    by (simp add: fact_numeral power_divide)
  moreover have "- 669 / 1000 \<le> (\<Sum>m<16. sin_coeff m * (387 / 100 :: real) ^ m)"
    unfolding sin_poly16 by (simp add: power_divide)
  ultimately show ?thesis by linarith
qed

lemma gap:
  fixes s1 s2 e1 e2 :: real
  assumes "- 7 / 10 \<le> s1" and "s2 \<le> - 3 / 4" and "0 < e1" and "e1 \<le> 83 / 100"
    and "7777 / 10000 \<le> e2"
  shows "2 / 1000 < 6 / 10 * s1 * (360 / 3481) * e1 - 6 / 10 * s2 * (1 / 9) * e2"
proof -
  have "(- 7 / 10) * e1 \<le> s1 * e1"
    using assms(1,3) by (intro mult_right_mono) simp_all
  then have a: "- 7 / 10 * (83 / 100) \<le> s1 * e1"
    using assms(4) by linarith
  have "s2 * e2 \<le> (- 3 / 4) * e2"
    using assms(2,5) by (intro mult_right_mono) simp_all
  then have b: "s2 * e2 \<le> - 3 / 4 * (7777 / 10000)"
    using assms(5) by linarith
  have "6 / 10 * s1 * (360 / 3481) * e1 - 6 / 10 * s2 * (1 / 9) * e2
          = 6 / 10 * (360 / 3481) * (s1 * e1) - 6 / 10 * (1 / 9) * (s2 * e2)"
    by simp
  then show ?thesis using a b by linarith
qed

lemma exp_neg_upper:
  fixes x c :: real
  assumes "c \<le> x" and "0 \<le> c"
  shows "exp (- x) \<le> 1 / (1 + c)"
proof -
  have "1 + c \<le> exp x"
    using exp_ge_add_one_self [of x] assms(1) by linarith
  moreover have "0 < 1 + c" using assms(2) by linarith
  ultimately have "inverse (exp x) \<le> inverse (1 + c)"
    by (rule le_imp_inverse_le)
  then show ?thesis by (simp add: exp_minus inverse_eq_divide)
qed

lemma radius_bounds:
  "19347 / 10000 \<le> sqrt ((114 / 59)\<^sup>2 + (- 6 / 59)\<^sup>2)"
  "sqrt ((114 / 59)\<^sup>2 + (- 6 / 59)\<^sup>2) \<le> 1935 / 1000"
proof -
  show "19347 / 10000 \<le> sqrt ((114 / 59)\<^sup>2 + (- 6 / 59)\<^sup>2)"
    by (rule real_le_rsqrt) (simp add: power_divide)
  show "sqrt ((114 / 59)\<^sup>2 + (- 6 / 59)\<^sup>2) \<le> 1935 / 1000"
    by (rule real_le_lsqrt) (simp_all add: power_divide)
qed

lemma field_at_grid_point:
  "wave_displacement_at (114 / 59) (- 6 / 59) 0 =
     6 / 10 * sin (2 * (sqrt ((114 / 59)\<^sup>2 + (- 6 / 59)\<^sup>2) + 1 / 10 ^ 6)) * (360 / 3481)
       * exp (- ((sqrt ((114 / 59)\<^sup>2 + (- 6 / 59)\<^sup>2) + 1 / 10 ^ 6)\<^sup>2 / 18))"
proof -
  have "((114 / 59)\<^sup>2 - (- 6 / 59)\<^sup>2) / 6\<^sup>2 = (360 / 3481 :: real)"
    by (simp add: power_divide)
  then show ?thesis
    by (simp only: displacement_closed_form mult_zero_right diff_zero minus_divide_left)
qed

lemma field_at_reference_point:
  "wave_displacement_at 2 0 0 =
     6 / 10 * sin (2 * (2 + 1 / 10 ^ 6)) * (1 / 9) * exp (- ((2 + 1 / 10 ^ 6)\<^sup>2 / 18))"
proof -
  have "sqrt (2\<^sup>2 + 0\<^sup>2) = (2::real)" by simp
  moreover have "(2\<^sup>2 - 0\<^sup>2) / 6\<^sup>2 = (1 / 9 :: real)" by simp
  ultimately show ?thesis
    by (simp only: displacement_closed_form mult_zero_right diff_zero minus_divide_left)
qed

lemma field_gap:
  "2 / 1000 < wave_displacement_at (114 / 59) (- 6 / 59) 0 - wave_displacement_at 2 0 0"
proof -
  define r1 :: real where "r1 = sqrt ((114 / 59)\<^sup>2 + (- 6 / 59)\<^sup>2) + 1 / 10 ^ 6"
  define r2 :: real where "r2 = 2 + 1 / 10 ^ 6"
  have r1_lo: "19347 / 10000 \<le> r1" and r1_hi: "r1 \<le> 19351 / 10000"
    using radius_bounds by (simp_all add: r1_def)
  have "\<bar>sin (2 * r1) - sin (387 / 100)\<bar> \<le> \<bar>2 * r1 - 387 / 100\<bar>"
    by (rule sin_lipschitz)
  moreover have "\<bar>2 * r1 - 387 / 100\<bar> \<le> 1 / 100"
    using r1_lo r1_hi by linarith
  ultimately have s1: "- 7 / 10 \<le> sin (2 * r1)"
    using sin_387_lower by linarith
  have "\<bar>sin (2 * r2) - sin 4\<bar> \<le> \<bar>2 * r2 - 4\<bar>"
    by (rule sin_lipschitz)
  moreover have "\<bar>2 * r2 - 4\<bar> \<le> 1 / 1000"
    unfolding r2_def by simp
  ultimately have s2: "sin (2 * r2) \<le> - 3 / 4"
    using sin_4_upper by linarith
  have "(19347 / 10000)\<^sup>2 \<le> r1\<^sup>2"
    using r1_lo by (intro power_mono) simp_all
  then have "37 / 180 \<le> r1\<^sup>2 / 18"
    by (simp add: power_divide)
  then have "exp (- (r1\<^sup>2 / 18)) \<le> 1 / (1 + 37 / 180)"
    by (rule exp_neg_upper) simp
  then have e1: "exp (- (r1\<^sup>2 / 18)) \<le> 83 / 100"
    by simp
  have e1_pos: "0 < exp (- (r1\<^sup>2 / 18))" by simp
  have "1 + - (r2\<^sup>2 / 18) \<le> exp (- (r2\<^sup>2 / 18))"
    by (rule exp_ge_add_one_self)
  moreover have "r2\<^sup>2 / 18 \<le> 2223 / 10000"
    by (simp add: r2_def power2_eq_square)
  ultimately have e2: "7777 / 10000 \<le> exp (- (r2\<^sup>2 / 18))"
    by linarith
  have "2 / 1000 < 6 / 10 * sin (2 * r1) * (360 / 3481) * exp (- (r1\<^sup>2 / 18))
          - 6 / 10 * sin (2 * r2) * (1 / 9) * exp (- (r2\<^sup>2 / 18))"
    by (rule gap [OF s1 s2 e1_pos e1 e2])
  then show ?thesis
    unfolding field_at_grid_point field_at_reference_point r1_def r2_def .
qed

lemma build_grid_rows: "length (fst build_grid) = 60" "length (snd build_grid) = 60"
  by (simp_all add: build_grid_def Let_def meshgrid_def length_linspace GRID_POINTS_def)

lemma build_grid_shape: "same_shape (fst build_grid) (snd build_grid)"
  by (simp add: build_grid_def Let_def meshgrid_def same_shape_def length_linspace
      map_replicate_const comp_def)

lemma build_grid_cell:
  assumes "i < 60" and "j < 60"
  shows "length (fst build_grid ! i) = 60"
    and "fst build_grid ! i ! j = - 6 + real j * (12 / 59)"
    and "snd build_grid ! i ! j = - 6 + real i * (12 / 59)"
  using assms axis_nth
  by (simp_all add: build_grid_def Let_def meshgrid_def length_linspace GRID_POINTS_def)

lemma column_distance:
  assumes "j < 60"
  shows "(114 / 59 - 2 :: real)\<^sup>2 \<le> (- 6 + real j * (12 / 59) - 2)\<^sup>2"
proof -
  have "\<bar>114 / 59 - 2 :: real\<bar> \<le> \<bar>- 6 + real j * (12 / 59) - 2\<bar>"
  proof (cases "j \<le> 39")
    case True
    then have "real j \<le> 39" by simp
    then show ?thesis by linarith
  next
    case False
    then have "40 \<le> j" by simp
    then have "40 \<le> real j" by simp
    then show ?thesis by linarith
  qed
  then show ?thesis by (simp only: abs_le_square_iff)
qed

lemma row_distance:
  assumes "i < 60"
  shows "(- 6 / 59 - 0 :: real)\<^sup>2 \<le> (- 6 + real i * (12 / 59) - 0)\<^sup>2"
proof -
  have "\<bar>- 6 / 59 - 0 :: real\<bar> \<le> \<bar>- 6 + real i * (12 / 59) - 0\<bar>"
  proof (cases "i \<le> 29")
    case True
    then have "real i \<le> 29" by simp
    then show ?thesis by linarith
  next
    case False
    then have "30 \<le> i" by simp
    then have "30 \<le> real i" by simp
    then show ?thesis by linarith
  qed
  then show ?thesis by (simp only: abs_le_square_iff)
qed

lemma nearest_cell_value:
  "wave_deformation (fst build_grid) (snd build_grid) t ! 29 ! 39
     = wave_displacement_at (114 / 59) (- 6 / 59) t"
proof -
  have i: "29 < length (fst build_grid)" by (simp add: build_grid_rows)
  have j: "39 < length (fst build_grid ! 29)"
    using build_grid_cell(1) [of 29 39] by simp
  have x: "fst build_grid ! 29 ! 39 = 114 / 59" by (simp add: build_grid_cell)
  have y: "snd build_grid ! 29 ! 39 = - 6 / 59" by (simp add: build_grid_cell)
  show ?thesis
    using wave_deformation_cell [OF build_grid_shape i j, of t] by (simp only: x y)
qed

text \<open>
  C2, as stated, fails: at \<open>t = 0\<close> the value of the field in the cell of the mesh
  nearest to \<open>(2, 0)\<close> is not within \<open>10\<^sup>-\<^sup>6\<close> of the reference formula evaluated at
  \<open>(2, 0)\<close>, that is at \<open>r = sqrt 4 + 10\<^sup>-\<^sup>6\<close>.
\<close>

theorem nearest_grid_value_differs_from_reference:
  "\<not> \<bar>wave_deformation (fst build_grid) (snd build_grid) 0
         ! nearest_index (linspace (- SPACE_EXTENT) SPACE_EXTENT GRID_POINTS) 0
         ! nearest_index (linspace (- SPACE_EXTENT) SPACE_EXTENT GRID_POINTS) 2
       - 6 / 10 * sin (2 * (sqrt 4 + 1 / 10 ^ 6)) * ((2\<^sup>2 - 0\<^sup>2) / 6\<^sup>2)
           * exp (- ((sqrt 4 + 1 / 10 ^ 6)\<^sup>2) / 18)\<bar> \<le> 1 / 10 ^ 6"
proof -
  have ref: "6 / 10 * sin (2 * (sqrt 4 + 1 / 10 ^ 6)) * ((2\<^sup>2 - 0\<^sup>2) / 6\<^sup>2)
           * exp (- ((sqrt 4 + 1 / 10 ^ 6)\<^sup>2) / 18) = wave_displacement_at 2 0 0"
    by (simp add: displacement_closed_form)
  have "2 / 1000 < wave_deformation (fst build_grid) (snd build_grid) 0 ! 29 ! 39
                     - wave_displacement_at 2 0 0"
    using field_gap by (simp only: nearest_cell_value)
  moreover have "(1 / 10 ^ 6 :: real) < 2 / 1000" by simp
  ultimately show ?thesis
    unfolding nearest_x nearest_y ref by linarith
qed

text \<open>
  C2, amended. The mesh has 60 rows and 60 columns; its cell nearest to \<open>(2, 0)\<close> is in
  row 29 and column 39 and has the coordinates \<open>(114 / 59, - 6 / 59)\<close>, not \<open>(2, 0)\<close>.
  At \<open>t = 0\<close> the value of the field there is the formula
  \<open>amplitude * sin (k * r) * ((x\<^sup>2 - y\<^sup>2) / extent\<^sup>2) * exp (- r\<^sup>2 / falloff)\<close> evaluated at the
  cell's own coordinates, with \<open>r = sqrt (x\<^sup>2 + y\<^sup>2) + 10\<^sup>-\<^sup>6\<close>; it exceeds the reference value
  at the exact point \<open>(2, 0)\<close> by more than \<open>2 / 1000\<close>.
\<close>

theorem nearest_grid_point_value:
  "length (fst build_grid) = 60 \<and> length (fst build_grid ! 29) = 60
   \<and> same_shape (fst build_grid) (snd build_grid)
   \<and> nearest_index (linspace (- SPACE_EXTENT) SPACE_EXTENT GRID_POINTS) 0 = 29
   \<and> nearest_index (linspace (- SPACE_EXTENT) SPACE_EXTENT GRID_POINTS) 2 = 39
   \<and> fst build_grid ! 29 ! 39 = 114 / 59 \<and> snd build_grid ! 29 ! 39 = - 6 / 59
   \<and> (i < 60 \<and> j < 60 \<longrightarrow>
        (fst build_grid ! 29 ! 39 - 2)\<^sup>2 + (snd build_grid ! 29 ! 39 - 0)\<^sup>2
          \<le> (fst build_grid ! i ! j - 2)\<^sup>2 + (snd build_grid ! i ! j - 0)\<^sup>2)
   \<and> wave_deformation (fst build_grid) (snd build_grid) 0 ! 29 ! 39 =
        (let x = 114 / 59; y = - 6 / 59; r = sqrt (x\<^sup>2 + y\<^sup>2) + 1 / 10 ^ 6
         in 6 / 10 * sin (2 * r) * ((x\<^sup>2 - y\<^sup>2) / 6\<^sup>2) * exp (- (r\<^sup>2) / 18))
   \<and> 2 / 1000 < wave_deformation (fst build_grid) (snd build_grid) 0 ! 29 ! 39
                  - 6 / 10 * sin (2 * (sqrt 4 + 1 / 10 ^ 6)) * ((2\<^sup>2 - 0\<^sup>2) / 6\<^sup>2)
                      * exp (- ((sqrt 4 + 1 / 10 ^ 6)\<^sup>2) / 18)"
proof -
  have x: "fst build_grid ! 29 ! 39 = 114 / 59" by (simp add: build_grid_cell)
  have y: "snd build_grid ! 29 ! 39 = - 6 / 59" by (simp add: build_grid_cell)
  have cols: "length (fst build_grid ! 29) = 60"
    using build_grid_cell(1) [of 29 39] by simp
  have near: "i < 60 \<and> j < 60 \<longrightarrow>
        (fst build_grid ! 29 ! 39 - 2)\<^sup>2 + (snd build_grid ! 29 ! 39 - 0)\<^sup>2
          \<le> (fst build_grid ! i ! j - 2)\<^sup>2 + (snd build_grid ! i ! j - 0)\<^sup>2"
  proof
    assume h: "i < 60 \<and> j < 60"
    then have i: "i < 60" and j: "j < 60" by simp_all
    show "(fst build_grid ! 29 ! 39 - 2)\<^sup>2 + (snd build_grid ! 29 ! 39 - 0)\<^sup>2
          \<le> (fst build_grid ! i ! j - 2)\<^sup>2 + (snd build_grid ! i ! j - 0)\<^sup>2"
      unfolding x y build_grid_cell(2) [OF i j] build_grid_cell(3) [OF i j]
      by (rule add_mono [OF column_distance [OF j] row_distance [OF i]])
  qed
  have val: "wave_deformation (fst build_grid) (snd build_grid) 0 ! 29 ! 39 =
        (let x = 114 / 59; y = - 6 / 59; r = sqrt (x\<^sup>2 + y\<^sup>2) + 1 / 10 ^ 6
         in 6 / 10 * sin (2 * r) * ((x\<^sup>2 - y\<^sup>2) / 6\<^sup>2) * exp (- (r\<^sup>2) / 18))"
    unfolding nearest_cell_value Let_def by (simp add: displacement_closed_form)
  have ref: "6 / 10 * sin (2 * (sqrt 4 + 1 / 10 ^ 6)) * ((2\<^sup>2 - 0\<^sup>2) / 6\<^sup>2)
           * exp (- ((sqrt 4 + 1 / 10 ^ 6)\<^sup>2) / 18) = wave_displacement_at 2 0 0"
    by (simp add: displacement_closed_form)
  have gap: "2 / 1000 < wave_deformation (fst build_grid) (snd build_grid) 0 ! 29 ! 39
                  - 6 / 10 * sin (2 * (sqrt 4 + 1 / 10 ^ 6)) * ((2\<^sup>2 - 0\<^sup>2) / 6\<^sup>2)
                      * exp (- ((sqrt 4 + 1 / 10 ^ 6)\<^sup>2) / 18)"
    unfolding ref nearest_cell_value by (rule field_gap)
  show ?thesis
    using build_grid_rows(1) cols build_grid_shape nearest_y nearest_x x y near val gap
    by blast
qed

theorem nearest_grid_point_value_witness:
  "(0::nat) < 60 \<and> (59::nat) < 60
   \<and> (fst build_grid ! 29 ! 39 - 2)\<^sup>2 + (snd build_grid ! 29 ! 39 - 0)\<^sup>2
        \<le> (fst build_grid ! 0 ! 59 - 2)\<^sup>2 + (snd build_grid ! 0 ! 59 - 0)\<^sup>2"
proof -
  have h: "(0::nat) < 60 \<and> (59::nat) < 60" by simp
  show ?thesis
    using h nearest_grid_point_value [of 0 59] by blast
qed

section \<open>Mass trajectory\<close>

lemma on_circle:
  fixes r a :: real
  assumes "0 \<le> r"
  shows "sqrt ((r * cos a)\<^sup>2 + (r * sin a)\<^sup>2) = r"
proof -
  have "(r * cos a)\<^sup>2 + (r * sin a)\<^sup>2 = r\<^sup>2 * ((cos a)\<^sup>2 + (sin a)\<^sup>2)"
    by (simp only: power_mult_distrib distrib_left)
  also have "\<dots> = r\<^sup>2" by simp
  finally show ?thesis using assms by simp
qed

lemma norm_neg_pair:
  fixes r a :: real
  shows "(- r * cos a)\<^sup>2 + (- r * sin a)\<^sup>2 = (r * cos a)\<^sup>2 + (r * sin a)\<^sup>2"
  by (simp add: power_mult_distrib)

text \<open>
  C3. At every time the two masses are antipodal (their positions add up to the zero
  vector), each lies at distance \<open>ORBITAL_RADIUS = 1.4\<close> from the origin, and the
  positions are \<open>radius * (cos \<theta>, sin \<theta>)\<close> and its negation, where
  \<open>\<theta> = 2 * pi * t / period\<close>.
\<close>

theorem mass_positions_antipodal_on_circle:
  "fst (fst (mass_positions t)) + fst (snd (mass_positions t)) = 0
   \<and> snd (fst (mass_positions t)) + snd (snd (mass_positions t)) = 0
   \<and> sqrt ((fst (fst (mass_positions t)))\<^sup>2 + (snd (fst (mass_positions t)))\<^sup>2) = 14 / 10
   \<and> sqrt ((fst (snd (mass_positions t)))\<^sup>2 + (snd (snd (mass_positions t)))\<^sup>2) = 14 / 10
   \<and> fst (mass_positions t)
       = (ORBITAL_RADIUS * cos (2 * pi * t / ORBITAL_PERIOD),
          ORBITAL_RADIUS * sin (2 * pi * t / ORBITAL_PERIOD))
   \<and> snd (mass_positions t)
       = (- fst (fst (mass_positions t)), - snd (fst (mass_positions t)))
   \<and> ORBITAL_RADIUS = 14 / 10 \<and> ORBITAL_PERIOD = 4"
proof -
  have "(0::real) \<le> 14 / 10" by simp
  note root = on_circle [OF this]
  show ?thesis
    by (simp only: mass_positions_def Let_def ORBITAL_RADIUS_def ORBITAL_PERIOD_def
        fst_conv snd_conv root norm_neg_pair) simp
qed

text \<open>
  C7. The mass trajectory is periodic with the orbital period of 4 seconds: the positions
  at \<open>t + period\<close> are the positions at \<open>t\<close>.
\<close>

theorem mass_positions_periodic:
  "mass_positions (t + ORBITAL_PERIOD) = mass_positions t \<and> ORBITAL_PERIOD = 4"
proof -
  have "2 * pi / 4 * (t + 4) = 2 * pi / 4 * t + 2 * pi"
    by (simp add: algebra_simps)
  then show ?thesis
    by (simp add: mass_positions_def Let_def ORBITAL_PERIOD_def
        del: times_divide_eq_left times_divide_eq_right)
qed

section \<open>Animation driver\<close>

lemma time_sample_update: "time_sample (update g i) = real i / 30"
  by (simp add: update_def Let_def split_beta FPS_def)

text \<open>
  C4. The driver renders \<open>FPS * DURATION = 30 * 12 = 360\<close> frames: one call of
  \<open>update\<close> for each frame index \<open>0, \<dots>, 359\<close>, in this order; frame \<open>i\<close> has the time
  sample \<open>i / 30\<close>, and the time samples are strictly increasing.
\<close>

theorem driver_renders_every_frame_in_order:
  "TOTAL_FRAMES = 30 * 12 \<and> TOTAL_FRAMES = 360 \<and> length rendered_frames = 360
   \<and> rendered_frames = map (update build_grid) [0..<360]
   \<and> map time_sample rendered_frames = map (\<lambda>i. real i / 30) [0..<360]
   \<and> sorted_wrt (<) (map time_sample rendered_frames)"
proof -
  have n: "TOTAL_FRAMES = 360"
    by (simp add: TOTAL_FRAMES_def FPS_def DURATION_def)
  have ts: "map time_sample rendered_frames = map (\<lambda>i. real i / 30) [0..<360]"
    by (simp add: rendered_frames_def n comp_def time_sample_update)
  have "sorted_wrt (<) (map (\<lambda>i. real i / 30) [0..<360])"
    by (simp add: sorted_wrt_map)
  then have "sorted_wrt (<) (map time_sample rendered_frames)"
    by (simp only: ts)
  moreover have "length rendered_frames = 360"
    by (simp add: rendered_frames_def n)
  moreover have "rendered_frames = map (update build_grid) [0..<360]"
    by (simp only: rendered_frames_def n)
  ultimately show ?thesis
    using ts n by simp
qed

end
